theory Spec2Isabelle
  imports Main
begin

section \<open>GeoGlim backend: the clip-and-serve pipeline\<close>

text \<open>
  A shallow embedding of \<^verbatim>\<open>backend/config.py\<close>, \<^verbatim>\<open>backend/models.py\<close>,
  \<^verbatim>\<open>backend/utils/validation.py\<close>, \<^verbatim>\<open>backend/services/clip_service.py\<close> and the
  \<^verbatim>\<open>clip_dataset\<close> handler of \<^verbatim>\<open>backend/main.py\<close>.

  The repository is glue around three libraries (the JSON codec, GeoPandas and the file
  system). Their operations are not code of the repository; they are the fields of the
  record \<open>env\<close> below, and every function of the repository takes the \<open>env\<close> it runs
  in. A raised exception is the \<open>Inl\<close> of a sum, so every \<^verbatim>\<open>raise\<close> and every
  \<^verbatim>\<open>except\<close> of the source is a branch of the model.
\<close>

subsection \<open>Exceptions\<close>

text \<open>
  The exception classes the code raises or catches. All of them are subclasses of
  Python's \<^verbatim>\<open>Exception\<close>; that holds for FastAPI's \<^verbatim>\<open>HTTPException\<close> too, whose
  arguments are the status code and the detail. \<open>LibraryError\<close> stands for any other
  \<^verbatim>\<open>Exception\<close> a library call raises.
\<close>

datatype exn =
    HTTPException nat string
  | JSONDecodeError string
  | UnicodeDecodeError string
  | ValueError string
  | KeyError string
  | NotImplementedError string
  | LibraryError string

subsection \<open>Data\<close>

text \<open>The value \<^verbatim>\<open>json.loads\<close> returns; a number keeps its literal text.\<close>

datatype json =
    JNull
  | JBool bool
  | JNumber string
  | JString string
  | JArray "json list"
  | JObject "(string \<times> json) list"

datatype geom_type =
    Point | LineString | Polygon | MultiPoint | MultiLineString | MultiPolygon
  | GeometryCollection

text \<open>
  One row of a GeoDataFrame: the type of its geometry, the verdict of the geometry
  engine's validity predicate on it (\<^verbatim>\<open>is_valid\<close>), and its attribute values.
\<close>

record feature =
  geom_type :: geom_type
  is_valid :: bool
  properties :: "(string \<times> string) list"

text \<open>
  A GeoDataFrame: its coordinate reference system (\<^verbatim>\<open>None\<close> when undeclared) and its
  rows. \<^verbatim>\<open>len(gdf)\<close> is the number of rows, \<^verbatim>\<open>gdf.empty\<close> says there is none.
\<close>

record gdf =
  crs :: "string option"
  features :: "feature list"

definition len :: "gdf \<Rightarrow> nat" where
  "len g = length (features g)"

definition empty_gdf :: "gdf \<Rightarrow> bool" where
  "empty_gdf g = (features g = [])"

text \<open>
  \<^verbatim>\<open>GeoDataFrame.set_crs(crs)\<close> with the default \<^verbatim>\<open>allow_override=False\<close>: a frame
  that already has a different reference system is refused, any other frame is returned
  with the reference system set.
\<close>

definition set_crs :: "gdf \<Rightarrow> string \<Rightarrow> exn + gdf" where
  "set_crs g c =
     (if crs g \<noteq> None \<and> crs g \<noteq> Some c
      then Inl (ValueError ''The GeoDataFrame already has a CRS which is not equal to the passed CRS.'')
      else Inr (g\<lparr>crs := Some c\<rparr>))"

subsection \<open>The libraries and the file system\<close>

text \<open>
  Uploaded bytes are a \<open>string\<close> (a HOL \<open>char\<close> is one byte); so is decoded text.
  \<^item> \<open>decode_utf8\<close>: \<^verbatim>\<open>bytes.decode('utf-8')\<close>
  \<^item> \<open>json_loads\<close>: \<^verbatim>\<open>json.loads\<close>
  \<^item> \<open>read_file_text\<close>: \<^verbatim>\<open>gpd.read_file(StringIO(text))\<close>
  \<^item> \<open>path_exists\<close>: \<^verbatim>\<open>Path.exists\<close>
  \<^item> \<open>read_file\<close>: \<^verbatim>\<open>gpd.read_file(path, layer=...)\<close> on a stored dataset
  \<^item> \<open>to_crs\<close>: \<^verbatim>\<open>GeoDataFrame.to_crs\<close>
  \<^item> \<open>overlay\<close>: \<^verbatim>\<open>gpd.overlay(df1, df2, how="intersection")\<close>
  \<^item> \<open>named_temporary_file\<close>: the name of \<^verbatim>\<open>tempfile.NamedTemporaryFile(suffix=..., delete=False)\<close>
  \<^item> \<open>to_file\<close>: \<^verbatim>\<open>GeoDataFrame.to_file(name, driver=...)\<close>
  \<^item> \<open>str_exc\<close>: \<^verbatim>\<open>str(e)\<close> of an exception
\<close>

record env =
  decode_utf8 :: "string \<Rightarrow> exn + string"
  json_loads :: "string \<Rightarrow> exn + json"
  read_file_text :: "string \<Rightarrow> exn + gdf"
  path_exists :: "string \<Rightarrow> bool"
  read_file :: "string \<Rightarrow> string option \<Rightarrow> exn + gdf"
  to_crs :: "gdf \<Rightarrow> string option \<Rightarrow> exn + gdf"
  overlay :: "gdf \<Rightarrow> gdf \<Rightarrow> exn + gdf"
  named_temporary_file :: "string \<Rightarrow> exn + string"
  to_file :: "gdf \<Rightarrow> string \<Rightarrow> string \<Rightarrow> exn + unit"
  str_exc :: "exn \<Rightarrow> string"

subsection \<open>\<^verbatim>\<open>backend/utils/validation.py\<close>\<close>

text \<open>The body of the \<^verbatim>\<open>try\<close> block of \<^verbatim>\<open>validate_geojson_file\<close>.\<close>

definition validate_geojson_try :: "env \<Rightarrow> string \<Rightarrow> exn + gdf" where
  "validate_geojson_try env contents =
     (case decode_utf8 env contents of
        Inl e \<Rightarrow> Inl e
      | Inr geojson_str \<Rightarrow>
          (case json_loads env geojson_str of
             Inl e \<Rightarrow> Inl e
           | Inr geojson_data \<Rightarrow>
               (case geojson_data of
                  JObject items \<Rightarrow>
                    if ''type'' \<notin> set (map fst items)
                    then Inl (ValueError ''GeoJSON must have a 'type' field'')
                    else
                      (case read_file_text env geojson_str of
                         Inl e \<Rightarrow> Inl e
                       | Inr g \<Rightarrow>
                           if empty_gdf g
                           then Inl (ValueError ''GeoJSON contains no features'')
                           else if \<not> list_all is_valid (features g)
                           then Inl (ValueError ''GeoJSON contains invalid geometries'')
                           else if crs g = None
                           then set_crs g ''EPSG:4326''
                           else Inr g)
                | _ \<Rightarrow> Inl (ValueError ''GeoJSON must be a JSON object''))))"

text \<open>
  \<^verbatim>\<open>validate_geojson_file\<close>: the two \<^verbatim>\<open>except\<close> clauses, in the source's order. Both
  re-raise as an \<^verbatim>\<open>HTTPException\<close> with status 400.
\<close>

definition validate_geojson_file :: "env \<Rightarrow> string \<Rightarrow> exn + gdf" where
  "validate_geojson_file env contents =
     (case validate_geojson_try env contents of
        Inr g \<Rightarrow> Inr g
      | Inl (JSONDecodeError m) \<Rightarrow>
          Inl (HTTPException 400 (''Invalid JSON format: '' @ str_exc env (JSONDecodeError m)))
      | Inl e \<Rightarrow>
          Inl (HTTPException 400 (''Invalid GeoJSON file: '' @ str_exc env e)))"

subsection \<open>\<^verbatim>\<open>backend/config.py\<close>\<close>

text \<open>
  Paths are written relative to \<^verbatim>\<open>BASE_DIR\<close>, the directory of \<^verbatim>\<open>config.py\<close>.
\<close>

definition GLIM_PATH :: string where
  "GLIM_PATH = ''data/LiMW_GIS_2015.gdb/LiMW_GIS 2015.gdb''"

definition GLHYMPS_PATH :: string where
  "GLHYMPS_PATH = ''data/GLHYMPS/GLHYMPS.shp''"

definition MAX_FILE_SIZE :: nat where
  "MAX_FILE_SIZE = 50 * 1024 * 1024"

definition USE_CLOUD_STORAGE :: bool where
  "USE_CLOUD_STORAGE = False"

text \<open>\<^verbatim>\<open>str.lower\<close>, on the ASCII letters (the only ones that can reach a key of \<open>paths\<close>).\<close>

definition lower_char :: "char \<Rightarrow> char" where
  "lower_char c =
     (let n = (of_char c :: nat) in if 65 \<le> n \<and> n \<le> 90 then char_of (n + 32) else c)"

definition lower :: "string \<Rightarrow> string" where
  "lower s = map lower_char s"

definition paths :: "string \<rightharpoonup> string" where
  "paths = [''glim'' \<mapsto> GLIM_PATH, ''glhymps'' \<mapsto> GLHYMPS_PATH]"

text \<open>\<^verbatim>\<open>get_data_path\<close>; \<^verbatim>\<open>dict.get\<close> gives \<^verbatim>\<open>None\<close> for a name that is no key.\<close>

definition get_data_path :: "string \<Rightarrow> exn + string option" where
  "get_data_path dataset_name =
     (if USE_CLOUD_STORAGE
      then Inl (NotImplementedError ''Cloud storage not yet configured'')
      else Inr (paths (lower dataset_name)))"

text \<open>
  \<^verbatim>\<open>is_dataset_available\<close> returns \<^verbatim>\<open>path and path.exists()\<close>: the falsy \<^verbatim>\<open>None\<close>
  when there is no path (\<open>False\<close> here), else whether the path exists.
\<close>

definition is_dataset_available :: "env \<Rightarrow> string \<Rightarrow> exn + bool" where
  "is_dataset_available env dataset_name =
     (case get_data_path dataset_name of
        Inl e \<Rightarrow> Inl e
      | Inr None \<Rightarrow> Inr False
      | Inr (Some path) \<Rightarrow> Inr (path_exists env path))"

subsection \<open>\<^verbatim>\<open>backend/models.py\<close>\<close>

datatype DatasetType = GLIM | GLHYMPS

fun DatasetType_value :: "DatasetType \<Rightarrow> string" where
  "DatasetType_value GLIM = ''glim''"
| "DatasetType_value GLHYMPS = ''glhymps''"

datatype OutputFormat = GEOJSON | SHAPEFILE | GPKG

fun OutputFormat_value :: "OutputFormat \<Rightarrow> string" where
  "OutputFormat_value GEOJSON = ''geojson''"
| "OutputFormat_value SHAPEFILE = ''shapefile''"
| "OutputFormat_value GPKG = ''gpkg''"

subsection \<open>\<^verbatim>\<open>backend/services/clip_service.py\<close>\<close>

text \<open>
  The state of a \<^verbatim>\<open>ClipService\<close> object is its dictionary \<^verbatim>\<open>_dataset_cache\<close>.
  Reading a stored dataset is an effect on the world outside the object; to speak about
  it, the model keeps the trace \<open>storage_reads\<close> of the calls of \<^verbatim>\<open>gpd.read_file\<close> on
  a dataset path that \<^verbatim>\<open>clip_data\<close> has made: the dataset name, and whether the call
  returned data.
\<close>

record ClipService =
  dataset_cache :: "string \<rightharpoonup> gdf"
  storage_reads :: "(string \<times> bool) list"

text \<open>\<^verbatim>\<open>ClipService.__init__\<close>\<close>

definition init :: ClipService where
  "init = \<lparr>dataset_cache = Map.empty, storage_reads = []\<rparr>"

text \<open>\<^verbatim>\<open>str(dataset_path)\<close>\<close>

definition str_path :: "string option \<Rightarrow> string" where
  "str_path p = (case p of None \<Rightarrow> ''None'' | Some s \<Rightarrow> s)"

text \<open>
  The call of \<^verbatim>\<open>gpd.read_file\<close> that \<^verbatim>\<open>clip_data\<close> makes for a dataset: GLiM is a
  FileGDB and needs its layer, anything else is read as a shapefile.
\<close>

definition read_dataset :: "env \<Rightarrow> string \<Rightarrow> string option \<Rightarrow> exn + gdf" where
  "read_dataset env dataset dataset_path =
     (if dataset = ''glim''
      then read_file env (str_path dataset_path) (Some ''GLiM_export'')
      else read_file env (str_path dataset_path) None)"

text \<open>
  The load step of \<^verbatim>\<open>clip_data\<close> (the \<^verbatim>\<open>if dataset not in self._dataset_cache\<close>
  statement): the dataset's frame, from the cache or from storage. An exception of
  \<^verbatim>\<open>gpd.read_file\<close> leaves the method before the assignment to the cache.
\<close>

definition load_dataset :: "env \<Rightarrow> ClipService \<Rightarrow> string \<Rightarrow> (exn + gdf) \<times> ClipService" where
  "load_dataset env self dataset =
     (case dataset_cache self dataset of
        None \<Rightarrow>
          (case get_data_path dataset of
             Inl e \<Rightarrow> (Inl e, self)
           | Inr dataset_path \<Rightarrow>
               (case read_dataset env dataset dataset_path of
                  Inl e \<Rightarrow>
                    (Inl e, self\<lparr>storage_reads := storage_reads self @ [(dataset, False)]\<rparr>)
                | Inr full_data \<Rightarrow>
                    (Inr full_data,
                     self\<lparr>dataset_cache := (dataset_cache self)(dataset \<mapsto> full_data),
                          storage_reads := storage_reads self @ [(dataset, True)]\<rparr>)))
      | Some full_data \<Rightarrow> (Inr full_data, self))"

definition format_config :: "string \<rightharpoonup> string \<times> string" where
  "format_config =
     [''geojson'' \<mapsto> (''.geojson'', ''GeoJSON''),
      ''shapefile'' \<mapsto> (''.shp'', ''ESRI Shapefile''),
      ''gpkg'' \<mapsto> (''.gpkg'', ''GPKG'')]"

text \<open>\<^verbatim>\<open>ClipService._save_result\<close>; a format that is no key raises \<^verbatim>\<open>KeyError\<close>.\<close>

definition save_result :: "env \<Rightarrow> gdf \<Rightarrow> string \<Rightarrow> exn + string" where
  "save_result env g format =
     (case format_config format of
        None \<Rightarrow> Inl (KeyError format)
      | Some (suffix, driver) \<Rightarrow>
          (case named_temporary_file env suffix of
             Inl e \<Rightarrow> Inl e
           | Inr name \<Rightarrow>
               (case to_file env g name driver of
                  Inl e \<Rightarrow> Inl e
                | Inr _ \<Rightarrow> Inr name)))"

text \<open>The reference-system step of \<^verbatim>\<open>clip_data\<close>: only the AOI is ever reprojected.\<close>

definition ensure_crs :: "env \<Rightarrow> gdf \<Rightarrow> gdf \<Rightarrow> exn + gdf" where
  "ensure_crs env aoi full_data =
     (if crs aoi \<noteq> crs full_data then to_crs env aoi (crs full_data) else Inr aoi)"

text \<open>\<^verbatim>\<open>ClipService.clip_data\<close>\<close>

definition clip_data ::
  "env \<Rightarrow> ClipService \<Rightarrow> string \<Rightarrow> gdf \<Rightarrow> string \<Rightarrow> (exn + gdf \<times> string) \<times> ClipService" where
  "clip_data env self dataset aoi output_format =
     (case load_dataset env self dataset of
        (Inl e, self') \<Rightarrow> (Inl e, self')
      | (Inr full_data, self') \<Rightarrow>
          (case ensure_crs env aoi full_data of
             Inl e \<Rightarrow> (Inl e, self')
           | Inr aoi' \<Rightarrow>
               (case overlay env full_data aoi' of
                  Inl e \<Rightarrow> (Inl e, self')
                | Inr clipped \<Rightarrow>
                    (case save_result env clipped output_format of
                       Inl e \<Rightarrow> (Inl e, self')
                     | Inr temp_file_path \<Rightarrow> (Inr (clipped, temp_file_path), self')))))"

subsection \<open>\<^verbatim>\<open>backend/main.py\<close>\<close>

record FileResponse =
  path :: string
  media_type :: string
  filename :: string
  headers :: "(string \<times> string) list"

text \<open>\<^verbatim>\<open>str(n)\<close> of a natural number.\<close>

function str_nat :: "nat \<Rightarrow> string" where
  "str_nat n =
     (if n < 10 then [char_of (48 + n)]
      else str_nat (n div 10) @ [char_of (48 + n mod 10)])"
  by pat_completeness auto
termination
  by (relation "measure id") auto

text \<open>
  The body of the \<^verbatim>\<open>try\<close> block of the handler \<^verbatim>\<open>clip_dataset\<close>. \<open>contents\<close> is what
  \<^verbatim>\<open>await geojson_file.read()\<close> returns.
\<close>

definition clip_dataset_try ::
  "env \<Rightarrow> ClipService \<Rightarrow> DatasetType \<Rightarrow> string \<Rightarrow> OutputFormat
     \<Rightarrow> (exn + FileResponse) \<times> ClipService" where
  "clip_dataset_try env clip_service dataset contents output_format =
     (case is_dataset_available env (DatasetType_value dataset) of
        Inl e \<Rightarrow> (Inl e, clip_service)
      | Inr available \<Rightarrow>
          if \<not> available
          then (Inl (HTTPException 404
                  (''Dataset '' @ DatasetType_value dataset @ '' not found in local storage. ''
                   @ ''Please ensure files are in backend/data/ folder.'')), clip_service)
          else if length contents > MAX_FILE_SIZE
          then (Inl (HTTPException 413 ''File too large. Max size: 50.0MB''), clip_service)
          else
            (case validate_geojson_file env contents of
               Inl e \<Rightarrow> (Inl e, clip_service)
             | Inr aoi_gdf \<Rightarrow>
                 (case clip_data env clip_service (DatasetType_value dataset) aoi_gdf
                         (OutputFormat_value output_format) of
                    (Inl e, clip_service') \<Rightarrow> (Inl e, clip_service')
                  | (Inr (result_gdf, temp_file_path), clip_service') \<Rightarrow>
                      (Inr \<lparr>path = temp_file_path,
                            media_type = ''application/octet-stream'',
                            filename = DatasetType_value dataset @ ''_clipped.''
                                         @ OutputFormat_value output_format,
                            headers = [(''X-Feature-Count'', str_nat (len result_gdf))]\<rparr>,
                       clip_service'))))"

text \<open>
  The handler \<^verbatim>\<open>clip_dataset\<close>: \<^verbatim>\<open>except Exception as e\<close> catches every exception
  the body raises and raises \<^verbatim>\<open>HTTPException(status_code=500, ...)\<close> in its place.
\<close>

definition clip_dataset ::
  "env \<Rightarrow> ClipService \<Rightarrow> DatasetType \<Rightarrow> string \<Rightarrow> OutputFormat
     \<Rightarrow> (exn + FileResponse) \<times> ClipService" where
  "clip_dataset env clip_service dataset contents output_format =
     (case clip_dataset_try env clip_service dataset contents output_format of
        (Inl e, clip_service') \<Rightarrow>
          (Inl (HTTPException 500 (''Clipping failed: '' @ str_exc env e)), clip_service')
      | (Inr response, clip_service') \<Rightarrow> (Inr response, clip_service'))"

text \<open>
  The status line the framework sends: 200 for a returned response, the status code of
  a raised \<^verbatim>\<open>HTTPException\<close>, 500 for any other exception.
\<close>

definition status_code :: "exn + FileResponse \<Rightarrow> nat" where
  "status_code r =
     (case r of
        Inr _ \<Rightarrow> 200
      | Inl (HTTPException code _) \<Rightarrow> code
      | Inl _ \<Rightarrow> 500)"

subsection \<open>A process lifetime\<close>

text \<open>
  The calls of \<^verbatim>\<open>clip_data\<close> that one \<^verbatim>\<open>ClipService\<close> object receives, one after
  the other, each in the environment of its moment (files may appear, change or vanish
  between two calls).
\<close>

fun serve :: "ClipService \<Rightarrow> (env \<times> string \<times> gdf \<times> string) list \<Rightarrow> ClipService" where
  "serve self [] = self"
| "serve self ((env, dataset, aoi, output_format) # calls) =
     serve (snd (clip_data env self dataset aoi output_format)) calls"

text \<open>
  What the claim on malformed uploads calls a payload that parses: the bytes decode, the
  text is one JSON value, and the value is an object with a \<^verbatim>\<open>"type"\<close> member.
\<close>

definition parses_with_type :: "env \<Rightarrow> string \<Rightarrow> bool" where
  "parses_with_type env contents =
     (case decode_utf8 env contents of
        Inl _ \<Rightarrow> False
      | Inr text \<Rightarrow>
          (case json_loads env text of
             Inr (JObject items) \<Rightarrow> ''type'' \<in> set (map fst items)
           | _ \<Rightarrow> False))"

subsection \<open>A concrete environment\<close>

text \<open>
  An environment to evaluate the functions in: the upload is a GeoJSON Feature with a
  Point geometry, only the GLHYMPS shapefile is on disk, and it has one polygon that
  does not meet the AOI.
\<close>

definition point_payload :: string where
  "point_payload =
     ''{\"type\": \"Feature\", \"properties\": {}, \"geometry\": {\"type\": \"Point\", \"coordinates\": [0, 0]}}''"

definition point_json :: json where
  "point_json =
     JObject [(''type'', JString ''Feature''),
              (''properties'', JObject []),
              (''geometry'', JObject [(''type'', JString ''Point''),
                                      (''coordinates'', JArray [JNumber ''0'', JNumber ''0''])])]"

definition point_feature :: feature where
  "point_feature = \<lparr>geom_type = Point, is_valid = True, properties = []\<rparr>"

definition glhymps_data :: gdf where
  "glhymps_data =
     \<lparr>crs = Some ''ESRI:54034'',
      features = [\<lparr>geom_type = Polygon, is_valid = True,
                   properties = [(''Porosity'', ''19''), (''Permeability'', ''-1520'')]\<rparr>]\<rparr>"

definition ascii :: "string \<Rightarrow> bool" where
  "ascii s = list_all (\<lambda>c. (of_char c :: nat) < 128) s"

definition sample_env :: env where
  "sample_env =
     \<lparr>decode_utf8 = (\<lambda>b. if ascii b then Inr b
                          else Inl (UnicodeDecodeError ''invalid start byte'')),
      json_loads = (\<lambda>s. if s = point_payload then Inr point_json
                         else Inl (JSONDecodeError ''Expecting value'')),
      read_file_text = (\<lambda>s. if s = point_payload
                             then Inr \<lparr>crs = Some ''EPSG:4326'', features = [point_feature]\<rparr>
                             else Inl (LibraryError ''not recognized as a supported file format'')),
      path_exists = (\<lambda>p. p = GLHYMPS_PATH),
      read_file = (\<lambda>p layer. if p = GLHYMPS_PATH \<and> layer = None then Inr glhymps_data
                              else Inl (LibraryError ''No such file or directory'')),
      to_crs = (\<lambda>g c. case c of
                         None \<Rightarrow> Inl (ValueError ''Must pass either crs or epsg.'')
                       | Some _ \<Rightarrow> Inr (g\<lparr>crs := c\<rparr>)),
      overlay = (\<lambda>df1 df2. Inr \<lparr>crs = crs df1, features = []\<rparr>),
      named_temporary_file = (\<lambda>suffix. Inr (''/tmp/tmp0'' @ suffix)),
      to_file = (\<lambda>g name driver. Inr ()),
      str_exc = (\<lambda>e. case e of
                         HTTPException code detail \<Rightarrow> detail
                       | JSONDecodeError m \<Rightarrow> m
                       | UnicodeDecodeError m \<Rightarrow> m
                       | ValueError m \<Rightarrow> m
                       | KeyError m \<Rightarrow> m
                       | NotImplementedError m \<Rightarrow> m
                       | LibraryError m \<Rightarrow> m)\<rparr>"

text \<open>The same, with a reader that reports no reference system for the upload.\<close>

definition no_crs_env :: env where
  "no_crs_env =
     sample_env\<lparr>read_file_text :=
                  (\<lambda>s. if s = point_payload then Inr \<lparr>crs = None, features = [point_feature]\<rparr>
                       else Inl (LibraryError ''not recognized as a supported file format''))\<rparr>"

text \<open>The same, after the GLHYMPS shapefile has been removed from the disk.\<close>

definition no_files_env :: env where
  "no_files_env =
     sample_env\<lparr>path_exists := (\<lambda>p. False),
                read_file := (\<lambda>p layer. Inl (LibraryError ''No such file or directory''))\<rparr>"

section \<open>Properties\<close>

subsection \<open>Configuration\<close>

text \<open>Cloud storage is switched off, so \<^verbatim>\<open>get_data_path\<close> never raises.\<close>

lemma get_data_path_eq: "get_data_path d = Inr (paths (lower d))"
  by (simp add: get_data_path_def USE_CLOUD_STORAGE_def)

lemma is_dataset_available_total:
  "\<exists>b. is_dataset_available env d = Inr b"
  by (auto simp: is_dataset_available_def get_data_path_eq split: option.split)

lemma no_files_unavailable:
  "is_dataset_available no_files_env (DatasetType_value GLIM) = Inr False"
  by (simp add: is_dataset_available_def get_data_path_eq no_files_env_def sample_env_def
      paths_def lower_def lower_char_def)

lemma sample_glhymps_available:
  "is_dataset_available sample_env (DatasetType_value GLHYMPS) = Inr True"
  by (simp add: is_dataset_available_def get_data_path_eq sample_env_def
      paths_def lower_def lower_char_def)

subsection \<open>The handler's early exits\<close>

text \<open>
  Both early exits of the handler raise their \<^verbatim>\<open>HTTPException\<close> inside the \<^verbatim>\<open>try\<close>
  block, so the handler's own \<^verbatim>\<open>except Exception\<close> catches it: what leaves the
  handler has status 500, and the intended status survives only inside the detail text.
  The service object is untouched on both paths.
\<close>

lemma clip_dataset_unavailable:
  assumes "is_dataset_available env (DatasetType_value dataset) = Inr False"
  shows "\<exists>detail.
           clip_dataset_try env svc dataset contents fmt = (Inl (HTTPException 404 detail), svc)
           \<and> clip_dataset env svc dataset contents fmt
               = (Inl (HTTPException 500
                    (''Clipping failed: '' @ str_exc env (HTTPException 404 detail))), svc)"
  using assms by (simp add: clip_dataset_def clip_dataset_try_def)

lemma clip_dataset_too_large:
  assumes "is_dataset_available env (DatasetType_value dataset) = Inr True"
    and "length contents > MAX_FILE_SIZE"
  shows "clip_dataset_try env svc dataset contents fmt
           = (Inl (HTTPException 413 ''File too large. Max size: 50.0MB''), svc)
         \<and> clip_dataset env svc dataset contents fmt
           = (Inl (HTTPException 500
                (''Clipping failed: ''
                 @ str_exc env (HTTPException 413 ''File too large. Max size: 50.0MB''))), svc)"
  using assms by (simp add: clip_dataset_def clip_dataset_try_def)

text \<open>
  C1. A request for a dataset whose file is absent should be answered 404 without
  touching the cache. Evaluated where no dataset file exists: the registry reports GLiM
  absent and the service object is left as it was, but the status of the answer is 500.
\<close>

theorem unavailable_dataset_answered_500:
  "is_dataset_available no_files_env (DatasetType_value GLIM) = Inr False
   \<and> status_code (fst (clip_dataset no_files_env init GLIM point_payload GEOJSON)) = 500
   \<and> snd (clip_dataset no_files_env init GLIM point_payload GEOJSON) = init"
  using clip_dataset_unavailable [OF no_files_unavailable, of init point_payload GEOJSON]
    no_files_unavailable
  by (auto simp: status_code_def)

lemma big_length: "length (replicate 52428801 (CHR ''a'')) > MAX_FILE_SIZE"
  by (simp only: length_replicate MAX_FILE_SIZE_def)

text \<open>
  C2. An upload larger than \<^verbatim>\<open>MAX_FILE_SIZE\<close> should be answered 413 before any
  JSON parsing. Evaluated on an upload of 52428801 bytes for the available GLHYMPS
  dataset: the validator is not reached and the service object is left as it was, but
  the status of the answer is 500.
\<close>

theorem oversized_upload_answered_500:
  "length (replicate 52428801 (CHR ''a'')) > MAX_FILE_SIZE
   \<and> is_dataset_available sample_env (DatasetType_value GLHYMPS) = Inr True
   \<and> status_code (fst (clip_dataset sample_env init GLHYMPS
                         (replicate 52428801 (CHR ''a'')) GEOJSON)) = 500
   \<and> snd (clip_dataset sample_env init GLHYMPS (replicate 52428801 (CHR ''a'')) GEOJSON) = init"
proof -
  note r = clip_dataset_too_large [OF sample_glhymps_available big_length, of init GEOJSON]
  have "status_code (fst (clip_dataset sample_env init GLHYMPS
                            (replicate 52428801 (CHR ''a'')) GEOJSON)) = 500"
    by (simp only: r fst_conv status_code_def sum.case exn.case)
  moreover
  have "snd (clip_dataset sample_env init GLHYMPS (replicate 52428801 (CHR ''a'')) GEOJSON) = init"
    by (simp only: r snd_conv)
  ultimately show ?thesis
    using big_length sample_glhymps_available by blast
qed

subsection \<open>The AOI validator\<close>

lemma validate_geojson_file_status:
  assumes "validate_geojson_try env contents = Inl e"
  shows "\<exists>detail. validate_geojson_file env contents = Inl (HTTPException 400 detail)"
  using assms by (cases e) (simp_all add: validate_geojson_file_def)

lemma validate_geojson_try_malformed:
  assumes "\<not> parses_with_type env contents"
  shows "\<exists>e. validate_geojson_try env contents = Inl e"
proof (cases "decode_utf8 env contents")
  case (Inl e)
  then show ?thesis by (simp add: validate_geojson_try_def)
next
  case (Inr s)
  note dec = this
  show ?thesis
  proof (cases "json_loads env s")
    case (Inl e)
    with dec show ?thesis by (simp add: validate_geojson_try_def)
  next
    case (Inr v)
    with dec assms show ?thesis
      by (cases v) (simp_all add: validate_geojson_try_def parses_with_type_def)
  qed
qed

lemma clip_dataset_invalid_aoi:
  assumes "validate_geojson_file env contents = Inl e"
  shows "snd (clip_dataset env svc dataset contents fmt) = svc"
  using assms is_dataset_available_total [of env "DatasetType_value dataset"]
  by (auto simp: clip_dataset_def clip_dataset_try_def)

lemma malformed_upload_rejected_before_load:
  assumes "\<not> parses_with_type env contents"
  shows "(\<exists>detail. validate_geojson_file env contents = Inl (HTTPException 400 detail))
         \<and> snd (clip_dataset env svc dataset contents fmt) = svc"
proof -
  from validate_geojson_try_malformed [OF assms] validate_geojson_file_status
  have "\<exists>detail. validate_geojson_file env contents = Inl (HTTPException 400 detail)"
    by blast
  then show ?thesis using clip_dataset_invalid_aoi by blast
qed

lemma clip_dataset_invalid_aoi_status:
  assumes "is_dataset_available env (DatasetType_value dataset) = Inr True"
    and "\<not> length contents > MAX_FILE_SIZE"
    and "validate_geojson_file env contents = Inl e"
  shows "clip_dataset env svc dataset contents fmt
           = (Inl (HTTPException 500 (''Clipping failed: '' @ str_exc env e)), svc)"
  using assms by (simp add: clip_dataset_def clip_dataset_try_def)

lemma sample_not_json:
  "validate_geojson_file sample_env ''not json''
     = Inl (HTTPException 400 ''Invalid JSON format: Expecting value'')"
  by (simp add: validate_geojson_file_def validate_geojson_try_def sample_env_def ascii_def
      point_payload_def)

text \<open>
  C3. An upload that is not JSON should make the validator fail with its status-400
  error, shown to the client as status 400, before any dataset is loaded. Evaluated on
  the upload \<^verbatim>\<open>not json\<close> for the available GLHYMPS dataset: the validator raises
  \<^verbatim>\<open>HTTPException\<close> with status code 400 and the service object is left as it was
  (nothing cached, no stored dataset read), but the status of the answer is 500.
\<close>

theorem malformed_upload_answered_500:
  "\<not> parses_with_type sample_env ''not json''
   \<and> validate_geojson_file sample_env ''not json''
        = Inl (HTTPException 400 ''Invalid JSON format: Expecting value'')
   \<and> status_code (fst (clip_dataset sample_env init GLHYMPS ''not json'' GEOJSON)) = 500
   \<and> snd (clip_dataset sample_env init GLHYMPS ''not json'' GEOJSON) = init"
proof -
  have h: "\<not> parses_with_type sample_env ''not json''"
    by (simp add: parses_with_type_def sample_env_def ascii_def point_payload_def)
  have l: "\<not> length ''not json'' > MAX_FILE_SIZE"
    by (simp add: MAX_FILE_SIZE_def)
  note r = clip_dataset_invalid_aoi_status [OF sample_glhymps_available l sample_not_json,
      of init GEOJSON]
  have "status_code (fst (clip_dataset sample_env init GLHYMPS ''not json'' GEOJSON)) = 500"
    by (simp only: r fst_conv status_code_def sum.case exn.case)
  moreover
  have "snd (clip_dataset sample_env init GLHYMPS ''not json'' GEOJSON) = init"
    by (simp only: r snd_conv)
  ultimately show ?thesis using h sample_not_json by blast
qed

text \<open>
  What the validator accepts: a payload that parses, has the \<^verbatim>\<open>"type"\<close> member, and
  reads as a frame with at least one row and only valid geometries. The type of the
  geometries plays no part.
\<close>

lemma validate_geojson_file_accepts:
  assumes "decode_utf8 env contents = Inr s"
    and "json_loads env s = Inr (JObject items)"
    and "''type'' \<in> set (map fst items)"
    and "read_file_text env s = Inr g"
    and "features g \<noteq> []"
    and "list_all is_valid (features g)"
  shows "validate_geojson_file env contents =
           Inr (if crs g = None then g\<lparr>crs := Some ''EPSG:4326''\<rparr> else g)"
  using assms
  by (simp add: validate_geojson_file_def validate_geojson_try_def empty_gdf_def set_crs_def)

lemma sample_decode: "decode_utf8 sample_env point_payload = Inr point_payload"
  by (simp add: sample_env_def ascii_def point_payload_def)

lemma no_crs_decode: "decode_utf8 no_crs_env point_payload = Inr point_payload"
  by (simp add: no_crs_env_def sample_env_def ascii_def point_payload_def)

text \<open>
  C8. For every payload that passes the structural checks and reads as a frame without
  a reference system, the validator returns the frame (it does not fail), and the
  returned AOI has the reference system EPSG:4326.
\<close>

theorem missing_crs_defaults_to_wgs84:
  assumes "decode_utf8 env contents = Inr s"
    and "json_loads env s = Inr (JObject items)"
    and "''type'' \<in> set (map fst items)"
    and "read_file_text env s = Inr g"
    and "features g \<noteq> []"
    and "list_all is_valid (features g)"
    and "crs g = None"
  shows "\<exists>aoi. validate_geojson_file env contents = Inr aoi
           \<and> crs aoi = Some ''EPSG:4326'' \<and> features aoi = features g"
  using validate_geojson_file_accepts [OF assms(1-6)] assms(7) by simp

theorem missing_crs_defaults_to_wgs84_witness:
  "validate_geojson_file no_crs_env point_payload =
     Inr \<lparr>crs = Some ''EPSG:4326'', features = [point_feature]\<rparr>"
proof -
  have 1: "decode_utf8 no_crs_env point_payload = Inr point_payload"
    by (rule no_crs_decode)
  have 2: "json_loads no_crs_env point_payload
             = Inr (JObject
                 [(''type'', JString ''Feature''),
                  (''properties'', JObject []),
                  (''geometry'',
                   JObject [(''type'', JString ''Point''),
                            (''coordinates'', JArray [JNumber ''0'', JNumber ''0''])])])"
    by (simp add: no_crs_env_def sample_env_def point_json_def)
  have 3: "''type'' \<in> set (map fst
                 [(''type'', JString ''Feature''),
                  (''properties'', JObject []),
                  (''geometry'',
                   JObject [(''type'', JString ''Point''),
                            (''coordinates'', JArray [JNumber ''0'', JNumber ''0''])])])"
    by simp
  have 4: "read_file_text no_crs_env point_payload
             = Inr \<lparr>crs = None, features = [point_feature]\<rparr>"
    by (simp add: no_crs_env_def sample_env_def)
  have 5: "features \<lparr>crs = None, features = [point_feature]\<rparr> \<noteq> []" by simp
  have 6: "list_all is_valid (features \<lparr>crs = None, features = [point_feature]\<rparr>)"
    by (simp add: point_feature_def)
  have 7: "crs \<lparr>crs = None, features = [point_feature]\<rparr> = None" by simp
  from missing_crs_defaults_to_wgs84 [OF 1 2 3 4 5 6 7]
  obtain aoi where a: "validate_geojson_file no_crs_env point_payload = Inr aoi"
    and b: "crs aoi = Some ''EPSG:4326''"
    and c: "features aoi = features \<lparr>crs = None, features = [point_feature]\<rparr>"
    by blast
  from b c have "aoi = \<lparr>crs = Some ''EPSG:4326'', features = [point_feature]\<rparr>"
    by (cases aoi) simp
  with a show ?thesis by simp
qed

text \<open>
  C10. There is an upload whose only geometry is a point and which the validator
  accepts and returns: a GeoJSON Feature with a Point geometry, which the reader turns
  into one valid row.
\<close>

theorem validator_accepts_non_polygon:
  "\<exists>contents aoi. validate_geojson_file sample_env contents = Inr aoi
      \<and> features aoi \<noteq> []
      \<and> list_all (\<lambda>f. geom_type f = Point) (features aoi)"
proof -
  have "validate_geojson_file sample_env point_payload
          = Inr \<lparr>crs = Some ''EPSG:4326'', features = [point_feature]\<rparr>"
    using validate_geojson_file_accepts [of sample_env point_payload point_payload
        "[(''type'', JString ''Feature''),
          (''properties'', JObject []),
          (''geometry'',
           JObject [(''type'', JString ''Point''),
                    (''coordinates'', JArray [JNumber ''0'', JNumber ''0''])])]"
        "\<lparr>crs = Some ''EPSG:4326'', features = [point_feature]\<rparr>"]
      sample_decode
    by (simp add: sample_env_def point_json_def point_feature_def)
  then show ?thesis
    by (intro exI [of _ point_payload]
          exI [of _ "\<lparr>crs = Some ''EPSG:4326'', features = [point_feature]\<rparr>"])
       (simp add: point_feature_def)
qed

subsection \<open>The dataset cache\<close>

text \<open>The three ways through the load step.\<close>

lemma load_dataset_cached:
  assumes "dataset_cache self dataset = Some data"
  shows "load_dataset env self dataset = (Inr data, self)"
  using assms by (simp add: load_dataset_def)

lemma load_dataset_miss_ok:
  assumes "dataset_cache self dataset = None"
    and "read_dataset env dataset (paths (lower dataset)) = Inr data"
  shows "load_dataset env self dataset =
           (Inr data, self\<lparr>dataset_cache := (dataset_cache self)(dataset \<mapsto> data),
                           storage_reads := storage_reads self @ [(dataset, True)]\<rparr>)"
  using assms by (simp add: load_dataset_def get_data_path_eq)

lemma load_dataset_miss_fail:
  assumes "dataset_cache self dataset = None"
    and "read_dataset env dataset (paths (lower dataset)) = Inl e"
  shows "load_dataset env self dataset =
           (Inl e, self\<lparr>storage_reads := storage_reads self @ [(dataset, False)]\<rparr>)"
  using assms by (simp add: load_dataset_def get_data_path_eq)

lemma load_dataset_Inr_cached:
  assumes "load_dataset env self dataset = (Inr data, self')"
  shows "dataset_cache self' dataset = Some data"
proof (cases "dataset_cache self dataset")
  case None
  show ?thesis
  proof (cases "read_dataset env dataset (paths (lower dataset))")
    case (Inl e)
    from load_dataset_miss_fail [OF None Inl] assms show ?thesis by simp
  next
    case (Inr d)
    from load_dataset_miss_ok [OF None Inr] assms show ?thesis by auto
  qed
next
  case (Some d)
  from load_dataset_cached [OF Some, of env] assms Some show ?thesis by auto
qed

text \<open>After the load step, \<^verbatim>\<open>clip_data\<close> no longer changes the service object.\<close>

lemma clip_data_state:
  "snd (clip_data env self dataset aoi fmt) = snd (load_dataset env self dataset)"
  by (simp add: clip_data_def split: prod.split sum.split)

text \<open>
  The invariant of the cache, for one dataset name \<open>d\<close>: storage has returned data for
  \<open>d\<close> at most once, and not at all while \<open>d\<close> has no entry.
\<close>

lemma load_dataset_count:
  assumes "count_list (storage_reads self) (d, True)
             \<le> (if dataset_cache self d = None then 0 else 1)"
  shows "count_list (storage_reads (snd (load_dataset env self dataset))) (d, True)
           \<le> (if dataset_cache (snd (load_dataset env self dataset)) d = None then 0 else 1)"
proof (cases "dataset_cache self dataset")
  case None
  show ?thesis
  proof (cases "read_dataset env dataset (paths (lower dataset))")
    case (Inl e)
    from assms show ?thesis
      by (simp add: load_dataset_miss_fail [OF None Inl])
  next
    case (Inr data)
    from assms None show ?thesis
      by (auto simp: load_dataset_miss_ok [OF None Inr])
  qed
next
  case (Some data)
  from assms show ?thesis by (simp add: load_dataset_cached [OF Some])
qed

lemma serve_count:
  assumes "count_list (storage_reads self) (d, True)
             \<le> (if dataset_cache self d = None then 0 else 1)"
  shows "count_list (storage_reads (serve self calls)) (d, True)
           \<le> (if dataset_cache (serve self calls) d = None then 0 else 1)"
  using assms
proof (induction calls arbitrary: self)
  case Nil
  then show ?case by simp
next
  case (Cons c calls)
  obtain env dataset aoi fmt where c: "c = (env, dataset, aoi, fmt)"
    by (cases c) auto
  show ?case
    unfolding c serve.simps clip_data_state
    by (rule Cons.IH) (rule load_dataset_count [OF Cons.prems])
qed

lemma sample_read_glhymps:
  "read_dataset sample_env ''glhymps'' (paths (lower ''glhymps'')) = Inr glhymps_data"
  by (simp add: read_dataset_def sample_env_def paths_def lower_def lower_char_def str_path_def)

lemma no_files_read_glhymps:
  "read_dataset no_files_env ''glhymps'' (paths (lower ''glhymps''))
     = Inl (LibraryError ''No such file or directory'')"
  by (simp add: read_dataset_def no_files_env_def sample_env_def)

lemma sample_load_glhymps:
  "load_dataset sample_env init ''glhymps'' =
     (Inr glhymps_data,
      \<lparr>dataset_cache = [''glhymps'' \<mapsto> glhymps_data], storage_reads = [(''glhymps'', True)]\<rparr>)"
  using load_dataset_miss_ok [of init "''glhymps''" sample_env glhymps_data] sample_read_glhymps
  by (simp add: init_def)

lemma sample_serve_twice:
  "serve init
     [(sample_env, ''glhymps'',
       \<lparr>crs = Some ''EPSG:4326'', features = [point_feature]\<rparr>, ''geojson''),
      (no_files_env, ''glhymps'',
       \<lparr>crs = Some ''EPSG:4326'', features = [point_feature]\<rparr>, ''geojson'')]
   = \<lparr>dataset_cache = [''glhymps'' \<mapsto> glhymps_data], storage_reads = [(''glhymps'', True)]\<rparr>"
  by (simp add: clip_data_state sample_load_glhymps load_dataset_cached)

text \<open>
  C4. For every dataset name: when the load step has returned a frame, the load step
  run again on the resulting service object, in whatever state the files then are,
  returns the same frame and leaves the service object as it is, so storage is not read.
  And over any sequence of \<^verbatim>\<open>clip_data\<close> calls on a fresh service object, storage
  returns the data of a dataset name at most once.
\<close>

theorem cache_get_idempotent:
  "(load_dataset env self dataset = (Inr data, self')
      \<longrightarrow> load_dataset env' self' dataset = (Inr data, self'))
   \<and> count_list (storage_reads (serve init calls)) (dataset, True) \<le> 1"
proof
  show "load_dataset env self dataset = (Inr data, self')
      \<longrightarrow> load_dataset env' self' dataset = (Inr data, self')"
    using load_dataset_Inr_cached load_dataset_cached by blast
next
  have "count_list (storage_reads init) (dataset, True)
          \<le> (if dataset_cache init dataset = None then 0 else 1)"
    by (simp add: init_def)
  from serve_count [OF this, of calls]
  show "count_list (storage_reads (serve init calls)) (dataset, True) \<le> 1"
    by (simp split: if_splits)
qed

theorem cache_get_idempotent_witness:
  "load_dataset sample_env init ''glhymps'' =
     (Inr glhymps_data,
      \<lparr>dataset_cache = [''glhymps'' \<mapsto> glhymps_data], storage_reads = [(''glhymps'', True)]\<rparr>)
   \<and> load_dataset no_files_env
        \<lparr>dataset_cache = [''glhymps'' \<mapsto> glhymps_data], storage_reads = [(''glhymps'', True)]\<rparr>
        ''glhymps'' =
     (Inr glhymps_data,
      \<lparr>dataset_cache = [''glhymps'' \<mapsto> glhymps_data], storage_reads = [(''glhymps'', True)]\<rparr>)
   \<and> count_list
        (storage_reads (serve init
           [(sample_env, ''glhymps'',
             \<lparr>crs = Some ''EPSG:4326'', features = [point_feature]\<rparr>, ''geojson''),
            (no_files_env, ''glhymps'',
             \<lparr>crs = Some ''EPSG:4326'', features = [point_feature]\<rparr>, ''geojson'')]))
        (''glhymps'', True) = 1"
proof -
  have c: "count_list
        (storage_reads (serve init
           [(sample_env, ''glhymps'',
             \<lparr>crs = Some ''EPSG:4326'', features = [point_feature]\<rparr>, ''geojson''),
            (no_files_env, ''glhymps'',
             \<lparr>crs = Some ''EPSG:4326'', features = [point_feature]\<rparr>, ''geojson'')]))
        (''glhymps'', True) = 1"
    by (simp only: sample_serve_twice) simp
  from cache_get_idempotent [of sample_env init "''glhymps''" glhymps_data
      "\<lparr>dataset_cache = [''glhymps'' \<mapsto> glhymps_data], storage_reads = [(''glhymps'', True)]\<rparr>"
      no_files_env "[]"]
    sample_load_glhymps
  have "load_dataset no_files_env
        \<lparr>dataset_cache = [''glhymps'' \<mapsto> glhymps_data], storage_reads = [(''glhymps'', True)]\<rparr>
        ''glhymps'' =
     (Inr glhymps_data,
      \<lparr>dataset_cache = [''glhymps'' \<mapsto> glhymps_data], storage_reads = [(''glhymps'', True)]\<rparr>)"
    by blast
  with sample_load_glhymps c show ?thesis by blast
qed

text \<open>
  C5. When a dataset is not cached and reading its file fails, \<^verbatim>\<open>clip_data\<close> raises
  the reader's exception and the cache is as before: no entry for the name. A later
  load of the same name therefore goes to storage again, and returns the data if the
  file can then be read.
\<close>

theorem failed_load_not_cached:
  assumes "dataset_cache self dataset = None"
    and "read_dataset env dataset (paths (lower dataset)) = Inl e"
    and "read_dataset env' dataset (paths (lower dataset)) = Inr data"
  shows "\<exists>self'. clip_data env self dataset aoi fmt = (Inl e, self')
           \<and> dataset_cache self' = dataset_cache self
           \<and> storage_reads self' = storage_reads self @ [(dataset, False)]
           \<and> fst (load_dataset env' self' dataset) = Inr data
           \<and> storage_reads (snd (load_dataset env' self' dataset))
                = storage_reads self' @ [(dataset, True)]"
proof -
  let ?s = "self\<lparr>storage_reads := storage_reads self @ [(dataset, False)]\<rparr>"
  have 1: "clip_data env self dataset aoi fmt = (Inl e, ?s)"
    by (simp add: clip_data_def load_dataset_miss_fail [OF assms(1,2)])
  have 2: "dataset_cache ?s dataset = None"
    using assms(1) by simp
  note 3 = load_dataset_miss_ok [OF 2 assms(3)]
  show ?thesis
    by (rule exI [of _ ?s]) (simp add: 1 3)
qed

theorem failed_load_not_cached_witness:
  "\<exists>self'. clip_data no_files_env init ''glhymps''
                \<lparr>crs = Some ''EPSG:4326'', features = [point_feature]\<rparr> ''geojson''
              = (Inl (LibraryError ''No such file or directory''), self')
           \<and> dataset_cache self' = Map.empty
           \<and> storage_reads self' = [(''glhymps'', False)]
           \<and> fst (load_dataset sample_env self' ''glhymps'') = Inr glhymps_data
           \<and> storage_reads (snd (load_dataset sample_env self' ''glhymps''))
                = [(''glhymps'', False), (''glhymps'', True)]"
proof -
  have 1: "dataset_cache init ''glhymps'' = None" by (simp add: init_def)
  from failed_load_not_cached [OF 1 no_files_read_glhymps sample_read_glhymps,
      of "\<lparr>crs = Some ''EPSG:4326'', features = [point_feature]\<rparr>" "''geojson''"]
  obtain self' where
    "clip_data no_files_env init ''glhymps''
         \<lparr>crs = Some ''EPSG:4326'', features = [point_feature]\<rparr> ''geojson''
       = (Inl (LibraryError ''No such file or directory''), self')"
    and "dataset_cache self' = dataset_cache init"
    and "storage_reads self' = storage_reads init @ [(''glhymps'', False)]"
    and "fst (load_dataset sample_env self' ''glhymps'') = Inr glhymps_data"
    and "storage_reads (snd (load_dataset sample_env self' ''glhymps''))
           = storage_reads self' @ [(''glhymps'', True)]"
    by blast
  then show ?thesis
    by (intro exI [of _ self']) (simp add: init_def)
qed

subsection \<open>The clip engine\<close>

lemma clip_data_Inr:
  assumes "load_dataset env self dataset = (Inr full_data, self')"
    and "clip_data env self dataset aoi fmt = (Inr (clipped, temp_file_path), self'')"
  shows "\<exists>aoi'. ensure_crs env aoi full_data = Inr aoi'
           \<and> overlay env full_data aoi' = Inr clipped
           \<and> save_result env clipped fmt = Inr temp_file_path
           \<and> self'' = self'"
  using assms
  by (simp add: clip_data_def split: sum.splits)

lemma sample_save:
  "save_result sample_env g ''geojson'' = Inr ''/tmp/tmp0.geojson''"
  by (simp add: save_result_def format_config_def sample_env_def)

lemma sample_clip:
  "clip_data sample_env init ''glhymps''
       \<lparr>crs = Some ''EPSG:4326'', features = [point_feature]\<rparr> ''geojson''
     = (Inr (\<lparr>crs = Some ''ESRI:54034'', features = []\<rparr>, ''/tmp/tmp0.geojson''),
        \<lparr>dataset_cache = [''glhymps'' \<mapsto> glhymps_data],
          storage_reads = [(''glhymps'', True)]\<rparr>)"
proof -
  have 1: "ensure_crs sample_env \<lparr>crs = Some ''EPSG:4326'', features = [point_feature]\<rparr>
               glhymps_data
             = Inr \<lparr>crs = Some ''ESRI:54034'', features = [point_feature]\<rparr>"
    by (simp add: ensure_crs_def glhymps_data_def sample_env_def)
  have 2: "overlay sample_env glhymps_data
               \<lparr>crs = Some ''ESRI:54034'', features = [point_feature]\<rparr>
             = Inr \<lparr>crs = Some ''ESRI:54034'', features = []\<rparr>"
    by (simp add: sample_env_def glhymps_data_def)
  show ?thesis
    by (simp add: clip_data_def sample_load_glhymps 1 2 sample_save)
qed

text \<open>
  An overlay without rows takes the same path as any other: \<^verbatim>\<open>clip_data\<close> hands it
  to \<^verbatim>\<open>_save_result\<close> and returns what that returns; it raises exactly when the
  temporary file or the file writer does, or when the format is no key of the table.
\<close>

lemma clip_data_empty_overlay:
  assumes "load_dataset env self dataset = (Inr full_data, self')"
    and "ensure_crs env aoi full_data = Inr aoi'"
    and "overlay env full_data aoi' = Inr clipped"
    and "features clipped = []"
  shows "clip_data env self dataset aoi fmt =
           (case save_result env clipped fmt of
              Inl e \<Rightarrow> (Inl e, self')
            | Inr temp_file_path \<Rightarrow> (Inr (clipped, temp_file_path), self'))"
  using assms by (simp add: clip_data_def)

text \<open>
  C6. When the AOI's reference system differs from that of the loaded dataset, every
  result of \<^verbatim>\<open>clip_data\<close> is the overlay of the dataset frame, as loaded, with the AOI
  that \<^verbatim>\<open>to_crs\<close> produced for the dataset's reference system; the cache still holds
  the dataset frame as loaded. Since an overlay carries the reference system of its
  first frame, the result has the dataset's.
\<close>

theorem aoi_reprojected_to_dataset_crs:
  assumes "load_dataset env self dataset = (Inr full_data, self')"
    and "crs aoi \<noteq> crs full_data"
    and "clip_data env self dataset aoi fmt = (Inr (clipped, temp_file_path), self'')"
  shows "(\<exists>aoi'. to_crs env aoi (crs full_data) = Inr aoi'
            \<and> overlay env full_data aoi' = Inr clipped)
         \<and> dataset_cache self'' dataset = Some full_data
         \<and> ((\<forall>df1 df2 r. overlay env df1 df2 = Inr r \<longrightarrow> crs r = crs df1)
              \<longrightarrow> crs clipped = crs full_data)"
proof -
  from clip_data_Inr [OF assms(1,3)] obtain aoi' where
    e: "ensure_crs env aoi full_data = Inr aoi'"
    and ov: "overlay env full_data aoi' = Inr clipped"
    and s: "self'' = self'"
    by blast
  from e assms(2) have "to_crs env aoi (crs full_data) = Inr aoi'"
    by (simp add: ensure_crs_def)
  moreover from load_dataset_Inr_cached [OF assms(1)] s
  have "dataset_cache self'' dataset = Some full_data" by simp
  ultimately show ?thesis using ov by blast
qed

theorem aoi_reprojected_to_dataset_crs_witness:
  "load_dataset sample_env init ''glhymps'' =
     (Inr glhymps_data,
      \<lparr>dataset_cache = [''glhymps'' \<mapsto> glhymps_data], storage_reads = [(''glhymps'', True)]\<rparr>)
   \<and> crs \<lparr>crs = Some ''EPSG:4326'', features = [point_feature]\<rparr> \<noteq> crs glhymps_data
   \<and> clip_data sample_env init ''glhymps''
       \<lparr>crs = Some ''EPSG:4326'', features = [point_feature]\<rparr> ''geojson''
     = (Inr (\<lparr>crs = Some ''ESRI:54034'', features = []\<rparr>, ''/tmp/tmp0.geojson''),
        \<lparr>dataset_cache = [''glhymps'' \<mapsto> glhymps_data],
          storage_reads = [(''glhymps'', True)]\<rparr>)
   \<and> to_crs sample_env \<lparr>crs = Some ''EPSG:4326'', features = [point_feature]\<rparr>
         (crs glhymps_data)
       = Inr \<lparr>crs = Some ''ESRI:54034'', features = [point_feature]\<rparr>
   \<and> crs \<lparr>crs = Some ''ESRI:54034'', features = []\<rparr> = crs glhymps_data"
proof -
  have 2: "crs \<lparr>crs = Some ''EPSG:4326'', features = [point_feature]\<rparr> \<noteq> crs glhymps_data"
    by (simp add: glhymps_data_def)
  have 3: "\<forall>df1 df2 r. overlay sample_env df1 df2 = Inr r \<longrightarrow> crs r = crs df1"
    by (auto simp: sample_env_def)
  have 4: "to_crs sample_env \<lparr>crs = Some ''EPSG:4326'', features = [point_feature]\<rparr>
               (crs glhymps_data)
       = Inr \<lparr>crs = Some ''ESRI:54034'', features = [point_feature]\<rparr>"
    by (simp add: sample_env_def glhymps_data_def)
  from aoi_reprojected_to_dataset_crs [OF sample_load_glhymps 2 sample_clip] 3
  have "crs \<lparr>crs = Some ''ESRI:54034'', features = []\<rparr> = crs glhymps_data"
    by blast
  with sample_load_glhymps 2 sample_clip 4 show ?thesis by blast
qed

end
